theory Spec2Isabelle
  imports Complex_Main
begin

section \<open>Values exchanged with the backend and the browser\<close>

text \<open>
  The two pages (\<^verbatim>\<open>AITone\<close> in \<^verbatim>\<open>src/unnamed/part_000\<close> and \<^verbatim>\<open>Chatbot\<close> in
  \<^verbatim>\<open>src/web/src/pages/Chatbot.tsx\<close>) send object literals to the backend through
  \<^verbatim>\<open>postJSON\<close> and \<^verbatim>\<open>postBlob\<close> and keep the answers in React state. A request body is
  the list of its fields in the order of the literal. The pages only forward numbers and
  never compute with them: a number is the rational that its literal or its slider
  position denotes.
\<close>

datatype json = JStr string | JNum rat

type_synonym payload = "(string \<times> json) list"

datatype request = PostJSON string payload | PostBlob string payload

text \<open>A \<^verbatim>\<open>Blob\<close> is its bytes.\<close>

datatype blob = Blob "nat list"

text \<open>
  What an awaited call throws when it rejects: an \<^verbatim>\<open>Error\<close> object with its
  \<^verbatim>\<open>message\<close>, or any other value.
\<close>

datatype thrown = ErrorObj string | NonError

text \<open>
  \<^verbatim>\<open>URL.createObjectURL\<close> returns strings of the form \<^verbatim>\<open>blob:...\<close>: they are never
  empty, so a non-null \<^verbatim>\<open>audioUrl\<close> is always truthy. The number is the identity of the
  object URL.
\<close>

datatype url = BlobUrl nat

datatype url_event = Created url | Revoked url

datatype kind = Wav | Midi

datatype mode = Fast | Direct

section \<open>The browser\<close>

text \<open>
  The part of the browser the pages act on: the registry of live object URLs, the
  history of \<^verbatim>\<open>createObjectURL\<close> and \<^verbatim>\<open>revokeObjectURL\<close> calls, the requests issued so
  far, and the files offered for download (file name and what the anchor's
  \<^verbatim>\<open>href\<close> resolved to when it was clicked).
\<close>

record browser =
  objectURLs :: "(url \<times> blob) list"
  nextUrl :: nat
  urlLog :: "url_event list"
  requests :: "request list"
  downloads :: "(string \<times> blob option) list"

definition browser_init :: browser where
  "browser_init = \<lparr>objectURLs = [], nextUrl = 0, urlLog = [], requests = [], downloads = []\<rparr>"

definition createObjectURL :: "blob \<Rightarrow> browser \<Rightarrow> url \<times> browser" where
  "createObjectURL b w =
     (BlobUrl (nextUrl w),
      w\<lparr>objectURLs := (BlobUrl (nextUrl w), b) # objectURLs w,
        nextUrl := Suc (nextUrl w),
        urlLog := urlLog w @ [Created (BlobUrl (nextUrl w))]\<rparr>)"

definition revokeObjectURL :: "url \<Rightarrow> browser \<Rightarrow> browser" where
  "revokeObjectURL u w =
     w\<lparr>objectURLs := filter (\<lambda>p. fst p \<noteq> u) (objectURLs w),
       urlLog := urlLog w @ [Revoked u]\<rparr>"

text \<open>
  \<^verbatim>\<open>downloadBlob\<close> (the same function in both pages): the anchor is appended to the
  document, clicked and removed within one synchronous block, so only the click is kept.
\<close>

definition downloadBlob :: "blob \<Rightarrow> string \<Rightarrow> browser \<Rightarrow> browser" where
  "downloadBlob b filename w =
     (case createObjectURL b w of
        (u, w1) \<Rightarrow>
          revokeObjectURL u
            (w1\<lparr>downloads := downloads w1 @ [(filename, map_of (objectURLs w1) u)]\<rparr>))"

section \<open>Component state\<close>

text \<open>
  Both pages declare \<^verbatim>\<open>prompt\<close>, \<^verbatim>\<open>loading\<close>, \<^verbatim>\<open>error\<close>, \<^verbatim>\<open>abc\<close> and \<^verbatim>\<open>audioUrl\<close>
  with \<^verbatim>\<open>useState\<close>; each adds its own controls.
\<close>

record page =
  prompt :: string
  loading :: bool
  error :: "string option"
  abc :: "string option"
  audioUrl :: "url option"

record aitone = page +
  mode :: mode
  keySig :: string
  meter :: string
  bars :: rat
  bpm :: rat
  density :: rat
  brightness :: rat
  guidance :: rat
  duration :: rat

record chatbot = page +
  topP :: rat
  temperature :: rat

definition AITone_init :: aitone where
  "AITone_init =
     \<lparr>prompt = [], loading = False, error = None, abc = None, audioUrl = None,
      mode = Fast, keySig = ''D'', meter = ''4/4'', bars = 16, bpm = 120,
      density = 8 / 10, brightness = 7 / 10, guidance = 4, duration = 12\<rparr>"

definition Chatbot_init :: chatbot where
  "Chatbot_init =
     \<lparr>prompt = [], loading = False, error = None, abc = None, audioUrl = None,
      topP = 9 / 10, temperature = 1\<rparr>"

text \<open>JavaScript truthiness of a \<^verbatim>\<open>string | null\<close>: null and the empty string are falsy.\<close>

definition truthy :: "string option \<Rightarrow> bool" where
  "truthy x = (case x of None \<Rightarrow> False | Some t \<Rightarrow> t \<noteq> [])"

section \<open>The statements the two pages share\<close>

text \<open>Issuing a request: \<^verbatim>\<open>postJSON\<close> and \<^verbatim>\<open>postBlob\<close> up to their \<^verbatim>\<open>await\<close>.\<close>

definition send :: "request \<Rightarrow> 'z page_scheme \<times> browser \<Rightarrow> 'z page_scheme \<times> browser" where
  "send r \<sigma> = (case \<sigma> of (s, w) \<Rightarrow> (s, w\<lparr>requests := requests w @ [r]\<rparr>))"

text \<open>\<^verbatim>\<open>setError(null); setLoading(true);\<close>\<close>

definition enter :: "'z page_scheme \<times> browser \<Rightarrow> 'z page_scheme \<times> browser" where
  "enter \<sigma> = (case \<sigma> of (s, w) \<Rightarrow> (s\<lparr>error := None, loading := True\<rparr>, w))"

text \<open>
  \<^verbatim>\<open>setAbc(res.abc); const wav = await postBlob("/api/abc/audio/wav", { abc: res.abc });\<close>
  up to the \<^verbatim>\<open>await\<close>.
\<close>

definition render_request :: "string \<Rightarrow> request" where
  "render_request res_abc = PostBlob ''/api/abc/audio/wav'' [(''abc'', JStr res_abc)]"

definition setAbc_render :: "string \<Rightarrow> 'z page_scheme \<times> browser \<Rightarrow> 'z page_scheme \<times> browser" where
  "setAbc_render res_abc \<sigma> =
     (case \<sigma> of (s, w) \<Rightarrow> send (render_request res_abc) (s\<lparr>abc := Some res_abc\<rparr>, w))"

text \<open>
  \<^verbatim>\<open>if (audioUrl) URL.revokeObjectURL(audioUrl); setAudioUrl(URL.createObjectURL(wav));\<close>
  The \<^verbatim>\<open>audioUrl\<close> read here is the one the running handler closed over, that is the
  state of the render in which the button was clicked; it is passed as \<open>cu\<close>.
\<close>

definition publishAudio ::
  "url option \<Rightarrow> blob \<Rightarrow> 'z page_scheme \<times> browser \<Rightarrow> 'z page_scheme \<times> browser" where
  "publishAudio cu wav \<sigma> =
     (case \<sigma> of (s, w) \<Rightarrow>
        (case createObjectURL wav (case cu of Some u \<Rightarrow> revokeObjectURL u w | None \<Rightarrow> w) of
           (u', w') \<Rightarrow> (s\<lparr>audioUrl := Some u'\<rparr>, w')))"

text \<open>\<^verbatim>\<open>e instanceof Error ? e.message : "Generation failed"\<close>\<close>

definition errorMessage :: "thrown \<Rightarrow> string" where
  "errorMessage e = (case e of ErrorObj m \<Rightarrow> m | NonError \<Rightarrow> ''Generation failed'')"

text \<open>
  The \<^verbatim>\<open>catch\<close> and \<^verbatim>\<open>finally\<close> blocks of \<^verbatim>\<open>onGenerate\<close>; \<open>ex\<close> is what the
  \<^verbatim>\<open>try\<close> block threw, if it threw.
\<close>

definition catch_finally ::
  "thrown option \<Rightarrow> 'z page_scheme \<times> browser \<Rightarrow> 'z page_scheme \<times> browser" where
  "catch_finally ex \<sigma> =
     (case \<sigma> of (s, w) \<Rightarrow>
        ((case ex of Some e \<Rightarrow> s\<lparr>error := Some (errorMessage e)\<rparr> | None \<Rightarrow> s)
           \<lparr>loading := False\<rparr>, w))"

section \<open>AITone: \<^verbatim>\<open>runFast\<close>, \<^verbatim>\<open>runDirect\<close>, \<^verbatim>\<open>onGenerate\<close>, \<^verbatim>\<open>onDownload\<close>\<close>

text \<open>
  An asynchronous function is run to its end: the outcome of each awaited call (the
  thrown value on the left, the resolved value on the right) is an argument, and the
  result says whether the function threw, next to the state it leaves. State set before
  a rejected \<^verbatim>\<open>await\<close> stays set. \<open>c\<close> is the state the handler closed over.
\<close>

definition notation_request :: "aitone \<Rightarrow> request" where
  "notation_request c =
     PostJSON ''/api/gemini/abc''
       [(''prompt'', JStr (prompt c)), (''key'', JStr (keySig c)), (''meter'', JStr (meter c)),
        (''unit_note_length'', JStr ''1/8''), (''bars'', JNum (bars c))]"

definition direct_request :: "aitone \<Rightarrow> request" where
  "direct_request c =
     PostBlob ''/api/gemini/audio/wav''
       [(''prompt'', JStr (prompt c)), (''bpm'', JNum (bpm c)), (''density'', JNum (density c)),
        (''brightness'', JNum (brightness c)), (''guidance'', JNum (guidance c)),
        (''duration_seconds'', JNum (duration c))]"

definition runFast ::
  "aitone \<Rightarrow> thrown + string \<Rightarrow> thrown + blob \<Rightarrow> aitone \<times> browser
     \<Rightarrow> thrown option \<times> aitone \<times> browser" where
  "runFast c abcReply wavReply \<sigma> =
     (case abcReply of
        Inl e \<Rightarrow> (Some e, send (notation_request c) \<sigma>)
      | Inr res_abc \<Rightarrow>
          (case wavReply of
             Inl e \<Rightarrow> (Some e, setAbc_render res_abc (send (notation_request c) \<sigma>))
           | Inr wav \<Rightarrow>
               (None, publishAudio (audioUrl c) wav
                        (setAbc_render res_abc (send (notation_request c) \<sigma>)))))"

definition setAbc_null :: "'z page_scheme \<times> browser \<Rightarrow> 'z page_scheme \<times> browser" where
  "setAbc_null \<sigma> = (case \<sigma> of (s, w) \<Rightarrow> (s\<lparr>abc := None\<rparr>, w))"

definition runDirect ::
  "aitone \<Rightarrow> thrown + blob \<Rightarrow> aitone \<times> browser \<Rightarrow> thrown option \<times> aitone \<times> browser" where
  "runDirect c wavReply \<sigma> =
     (case wavReply of
        Inl e \<Rightarrow> (Some e, send (direct_request c) (setAbc_null \<sigma>))
      | Inr wav \<Rightarrow>
          (None, publishAudio (audioUrl c) wav (send (direct_request c) (setAbc_null \<sigma>))))"

definition AITone_onGenerate ::
  "thrown + string \<Rightarrow> thrown + blob \<Rightarrow> aitone \<times> browser \<Rightarrow> aitone \<times> browser" where
  "AITone_onGenerate abcReply wavReply \<sigma> =
     (case (if mode (fst \<sigma>) = Fast then runFast (fst \<sigma>) abcReply wavReply (enter \<sigma>)
            else runDirect (fst \<sigma>) wavReply (enter \<sigma>)) of
        (ex, \<sigma>') \<Rightarrow> catch_finally ex \<sigma>')"

definition kind_path :: "kind \<Rightarrow> string" where
  "kind_path k = (case k of Wav \<Rightarrow> ''wav'' | Midi \<Rightarrow> ''midi'')"

definition export_request :: "kind \<Rightarrow> string \<Rightarrow> request" where
  "export_request k t = PostBlob (''/api/abc/audio/'' @ kind_path k) [(''abc'', JStr t)]"

text \<open>
  \<^verbatim>\<open>onDownload\<close> has no \<^verbatim>\<open>try\<close>: a rejected \<^verbatim>\<open>postBlob\<close> leaves the function as the
  rejection of its promise, which is the first component of the result.
\<close>

definition AITone_onDownload ::
  "kind \<Rightarrow> thrown + blob \<Rightarrow> aitone \<times> browser \<Rightarrow> thrown option \<times> aitone \<times> browser" where
  "AITone_onDownload k reply \<sigma> =
     (case abc (fst \<sigma>) of
        None \<Rightarrow> (None, \<sigma>)
      | Some t \<Rightarrow>
          if t = [] then (None, \<sigma>)
          else
            (case reply of
               Inl e \<Rightarrow> (Some e, send (export_request k t) \<sigma>)
             | Inr b \<Rightarrow>
                 (case send (export_request k t) \<sigma> of
                    (s, w) \<Rightarrow>
                      (None, s,
                       downloadBlob b (if k = Wav then ''ai-tone.wav'' else ''ai-tone.mid'') w))))"

section \<open>Chatbot: \<^verbatim>\<open>onGenerate\<close>, \<^verbatim>\<open>onDownload\<close>\<close>

definition hf_request :: "chatbot \<Rightarrow> request" where
  "hf_request c =
     PostJSON ''/api/hf/abc''
       [(''prompt'', JStr (prompt c)), (''top_p'', JNum (topP c)),
        (''temperature'', JNum (temperature c)), (''max_length'', JNum 1024)]"

definition Chatbot_onGenerate ::
  "thrown + string \<Rightarrow> thrown + blob \<Rightarrow> chatbot \<times> browser \<Rightarrow> chatbot \<times> browser" where
  "Chatbot_onGenerate abcReply wavReply \<sigma> =
     (case abcReply of
        Inl e \<Rightarrow> catch_finally (Some e) (send (hf_request (fst \<sigma>)) (enter \<sigma>))
      | Inr res_abc \<Rightarrow>
          (case wavReply of
             Inl e \<Rightarrow>
               catch_finally (Some e)
                 (setAbc_render res_abc (send (hf_request (fst \<sigma>)) (enter \<sigma>)))
           | Inr wav \<Rightarrow>
               catch_finally None
                 (publishAudio (audioUrl (fst \<sigma>)) wav
                    (setAbc_render res_abc (send (hf_request (fst \<sigma>)) (enter \<sigma>))))))"

definition Chatbot_onDownload ::
  "kind \<Rightarrow> thrown + blob \<Rightarrow> chatbot \<times> browser \<Rightarrow> thrown option \<times> chatbot \<times> browser" where
  "Chatbot_onDownload k reply \<sigma> =
     (case abc (fst \<sigma>) of
        None \<Rightarrow> (None, \<sigma>)
      | Some t \<Rightarrow>
          if t = [] then (None, \<sigma>)
          else
            (case reply of
               Inl e \<Rightarrow> (Some e, send (export_request k t) \<sigma>)
             | Inr b \<Rightarrow>
                 (case send (export_request k t) \<sigma> of
                    (s, w) \<Rightarrow>
                      (None, s,
                       downloadBlob b (if k = Wav then ''fusion.wav'' else ''fusion.mid'') w))))"

section \<open>The session status\<close>

text \<open>
  The pages keep no status variable; what they render is decided by \<^verbatim>\<open>loading\<close>,
  \<^verbatim>\<open>error\<close> and \<^verbatim>\<open>audioUrl\<close>: the button reads "Generating..." while \<^verbatim>\<open>loading\<close>,
  the message is the non-null \<^verbatim>\<open>error\<close>, the player needs an \<^verbatim>\<open>audioUrl\<close>.
\<close>

datatype session_status = Idle | Generating | Ready | Failed string

definition status :: "'z page_scheme \<Rightarrow> session_status" where
  "status s =
     (if loading s then Generating
      else case error s of
             Some m \<Rightarrow> Failed m
           | None \<Rightarrow> (case audioUrl s of Some u \<Rightarrow> Ready | None \<Rightarrow> Idle))"

text \<open>
  The message on the page, \<^verbatim>\<open>{error && <div ...>{error}</div>}\<close>: a null and an empty
  \<^verbatim>\<open>error\<close> show nothing.
\<close>

definition shownError :: "'z page_scheme \<Rightarrow> string option" where
  "shownError s = (if truthy (error s) then error s else None)"

section \<open>Sessions: one handler after the other\<close>

text \<open>The \<^verbatim>\<open>onChange\<close> and \<^verbatim>\<open>onClick\<close> handlers that only set a control.\<close>

datatype aitone_input =
    SetMode mode | SetPrompt string | SetKeySig string | SetMeter string | SetBars rat
  | SetBpm rat | SetDensity rat | SetBrightness rat | SetGuidance rat | SetDuration rat

fun AITone_input :: "aitone_input \<Rightarrow> aitone \<Rightarrow> aitone" where
  "AITone_input (SetMode m) s = s\<lparr>mode := m\<rparr>"
| "AITone_input (SetPrompt p) s = s\<lparr>prompt := p\<rparr>"
| "AITone_input (SetKeySig k) s = s\<lparr>keySig := k\<rparr>"
| "AITone_input (SetMeter m) s = s\<lparr>meter := m\<rparr>"
| "AITone_input (SetBars n) s = s\<lparr>bars := n\<rparr>"
| "AITone_input (SetBpm n) s = s\<lparr>bpm := n\<rparr>"
| "AITone_input (SetDensity n) s = s\<lparr>density := n\<rparr>"
| "AITone_input (SetBrightness n) s = s\<lparr>brightness := n\<rparr>"
| "AITone_input (SetGuidance n) s = s\<lparr>guidance := n\<rparr>"
| "AITone_input (SetDuration n) s = s\<lparr>duration := n\<rparr>"

datatype chatbot_input = SetChatPrompt string | SetTopP rat | SetTemperature rat

fun Chatbot_input :: "chatbot_input \<Rightarrow> chatbot \<Rightarrow> chatbot" where
  "Chatbot_input (SetChatPrompt p) s = s\<lparr>prompt := p\<rparr>"
| "Chatbot_input (SetTopP n) s = s\<lparr>topP := n\<rparr>"
| "Chatbot_input (SetTemperature n) s = s\<lparr>temperature := n\<rparr>"

text \<open>
  A session in which every handler has finished before the next one starts: a
  generation with the outcomes of its calls, an export with the outcome of its call, or
  a change of a control. AITone renders its download buttons only in fast mode
  (\<^verbatim>\<open>mode === "fast" && abc && ...\<close>); the test of \<^verbatim>\<open>abc\<close> is repeated inside
  \<^verbatim>\<open>onDownload\<close>.
\<close>

datatype 'i command =
  Generate "thrown + string" "thrown + blob" | Export kind "thrown + blob" | Change 'i

fun AITone_exec :: "aitone_input command \<Rightarrow> aitone \<times> browser \<Rightarrow> aitone \<times> browser" where
  "AITone_exec (Generate abcReply wavReply) \<sigma> = AITone_onGenerate abcReply wavReply \<sigma>"
| "AITone_exec (Export k reply) \<sigma> =
     (if mode (fst \<sigma>) = Fast then snd (AITone_onDownload k reply \<sigma>) else \<sigma>)"
| "AITone_exec (Change i) \<sigma> = (AITone_input i (fst \<sigma>), snd \<sigma>)"

fun Chatbot_exec :: "chatbot_input command \<Rightarrow> chatbot \<times> browser \<Rightarrow> chatbot \<times> browser" where
  "Chatbot_exec (Generate abcReply wavReply) \<sigma> = Chatbot_onGenerate abcReply wavReply \<sigma>"
| "Chatbot_exec (Export k reply) \<sigma> = snd (Chatbot_onDownload k reply \<sigma>)"
| "Chatbot_exec (Change i) \<sigma> = (Chatbot_input i (fst \<sigma>), snd \<sigma>)"

definition AITone_run :: "aitone_input command list \<Rightarrow> aitone \<times> browser" where
  "AITone_run cs = foldl (\<lambda>\<sigma> c. AITone_exec c \<sigma>) (AITone_init, browser_init) cs"

definition Chatbot_run :: "chatbot_input command list \<Rightarrow> chatbot \<times> browser" where
  "Chatbot_run cs = foldl (\<lambda>\<sigma> c. Chatbot_exec c \<sigma>) (Chatbot_init, browser_init) cs"

text \<open>
  The handles of a session are in order when the only live object URL is the published
  \<^verbatim>\<open>audioUrl\<close>, and every object URL handed out so far was created once and revoked
  once, except the published one, which was never revoked.
\<close>

definition url_id :: "url \<Rightarrow> nat" where
  "url_id u = (case u of BlobUrl i \<Rightarrow> i)"

definition event_url :: "url_event \<Rightarrow> url" where
  "event_url e = (case e of Created u \<Rightarrow> u | Revoked u \<Rightarrow> u)"

definition live_is_published :: "'z page_scheme \<times> browser \<Rightarrow> bool" where
  "live_is_published \<sigma> =
     (case \<sigma> of (s, w) \<Rightarrow>
        map fst (objectURLs w) = (case audioUrl s of None \<Rightarrow> [] | Some u \<Rightarrow> [u]))"

definition released_once :: "'z page_scheme \<times> browser \<Rightarrow> bool" where
  "released_once \<sigma> =
     (case \<sigma> of (s, w) \<Rightarrow>
        list_all
          (\<lambda>i. count_list (urlLog w) (Created (BlobUrl i)) = 1 \<and>
               count_list (urlLog w) (Revoked (BlobUrl i))
                 = (if audioUrl s = Some (BlobUrl i) then 0 else 1))
          [0..<nextUrl w])"

definition urls_handed_out :: "'z page_scheme \<times> browser \<Rightarrow> bool" where
  "urls_handed_out \<sigma> =
     (case \<sigma> of (s, w) \<Rightarrow>
        list_all (\<lambda>e. url_id (event_url e) < nextUrl w) (urlLog w) \<and>
        (case audioUrl s of None \<Rightarrow> True | Some u \<Rightarrow> url_id u < nextUrl w))"

definition handles_ok :: "'z page_scheme \<times> browser \<Rightarrow> bool" where
  "handles_ok \<sigma> = (live_is_published \<sigma> \<and> released_once \<sigma> \<and> urls_handed_out \<sigma>)"

text \<open>
  \<^verbatim>\<open>URL.createObjectURL\<close> hands out a URL that is not in use: the next URL of the
  browser is not among the live ones.
\<close>

definition fresh :: "browser \<Rightarrow> bool" where
  "fresh w = (BlobUrl (nextUrl w) \<notin> set (map fst (objectURLs w)))"

section \<open>Handlers in flight\<close>

text \<open>
  An \<^verbatim>\<open>async\<close> handler runs up to its first \<^verbatim>\<open>await\<close> when it is called and goes on
  when the awaited call settles; other handlers may run in between. A suspended
  \<^verbatim>\<open>onGenerate\<close> is the \<^verbatim>\<open>await\<close> it waits at (the notation call, or a call that
  returns the audio) and the \<^verbatim>\<open>audioUrl\<close> it closed over, the only state it reads
  afterwards. A suspended \<^verbatim>\<open>onDownload\<close> is its \<^verbatim>\<open>kind\<close>.

  A setter changes the state that the next render will show. What is on the page, the
  \<^verbatim>\<open>disabled\<close> of the Generate button, the download buttons, and the handlers with the
  state they closed over, belongs to the last committed render, kept in \<open>rendered\<close>
  until the page renders again.
\<close>

datatype pc = AwaitAbc | AwaitWav

record 'z app =
  world :: "'z page_scheme \<times> browser"
  rendered :: "'z page_scheme"
  generating :: "(url option \<times> pc) list"
  exporting :: "kind list"

datatype 'i event =
    ClickGenerate
  | ClickDownload kind
  | Edit 'i
  | AbcSettled nat "thrown + string"
  | WavSettled nat "thrown + blob"
  | ExportSettled nat "thrown + blob"
  | Render

text \<open>
  \<^verbatim>\<open>onGenerate\<close> up to its first \<^verbatim>\<open>await\<close>, called on the state it reads
  (its closure is that state).
\<close>

definition AITone_begin :: "aitone \<times> browser \<Rightarrow> (aitone \<times> browser) \<times> pc" where
  "AITone_begin \<sigma> =
     (if mode (fst \<sigma>) = Fast then (send (notation_request (fst \<sigma>)) (enter \<sigma>), AwaitAbc)
      else (send (direct_request (fst \<sigma>)) (setAbc_null (enter \<sigma>)), AwaitWav))"

definition Chatbot_begin :: "chatbot \<times> browser \<Rightarrow> (chatbot \<times> browser) \<times> pc" where
  "Chatbot_begin \<sigma> = (send (hf_request (fst \<sigma>)) (enter \<sigma>), AwaitAbc)"

text \<open>
  The same, for a handler that closed over the state \<open>c\<close> of its render while the
  setters act on the current state.
\<close>

definition AITone_begin_from :: "aitone \<Rightarrow> aitone \<times> browser \<Rightarrow> (aitone \<times> browser) \<times> pc" where
  "AITone_begin_from c \<sigma> =
     (if mode c = Fast then (send (notation_request c) (enter \<sigma>), AwaitAbc)
      else (send (direct_request c) (setAbc_null (enter \<sigma>)), AwaitWav))"

definition Chatbot_begin_from ::
  "chatbot \<Rightarrow> chatbot \<times> browser \<Rightarrow> (chatbot \<times> browser) \<times> pc" where
  "Chatbot_begin_from c \<sigma> = (send (hf_request c) (enter \<sigma>), AwaitAbc)"

definition start_generate ::
  "url option \<Rightarrow> ('z page_scheme \<times> browser \<Rightarrow> ('z page_scheme \<times> browser) \<times> pc)
     \<Rightarrow> 'z app \<Rightarrow> 'z app" where
  "start_generate cu begin a =
     (case begin (world a) of
        (\<sigma>', p) \<Rightarrow> a\<lparr>world := \<sigma>', generating := generating a @ [(cu, p)]\<rparr>)"

text \<open>The notation call of the \<open>i\<close>-th suspended \<^verbatim>\<open>onGenerate\<close> settles.\<close>

definition settle_abc :: "nat \<Rightarrow> thrown + string \<Rightarrow> 'z app \<Rightarrow> 'z app" where
  "settle_abc i r a =
     (if i < length (generating a) \<and> snd (generating a ! i) = AwaitAbc then
        (case r of
           Inl e \<Rightarrow>
             a\<lparr>world := catch_finally (Some e) (world a),
               generating := take i (generating a) @ drop (Suc i) (generating a)\<rparr>
         | Inr res_abc \<Rightarrow>
             a\<lparr>world := setAbc_render res_abc (world a),
               generating := (generating a)[i := (fst (generating a ! i), AwaitWav)]\<rparr>)
      else a)"

text \<open>The audio call of the \<open>i\<close>-th suspended \<^verbatim>\<open>onGenerate\<close> settles.\<close>

definition settle_wav :: "nat \<Rightarrow> thrown + blob \<Rightarrow> 'z app \<Rightarrow> 'z app" where
  "settle_wav i r a =
     (if i < length (generating a) \<and> snd (generating a ! i) = AwaitWav then
        a\<lparr>world :=
            (case r of
               Inl e \<Rightarrow> catch_finally (Some e) (world a)
             | Inr wav \<Rightarrow>
                 catch_finally None (publishAudio (fst (generating a ! i)) wav (world a))),
          generating := take i (generating a) @ drop (Suc i) (generating a)\<rparr>
      else a)"

text \<open>
  \<^verbatim>\<open>onDownload\<close> up to its \<^verbatim>\<open>await\<close>, and from there on; \<open>cabc\<close> is the \<^verbatim>\<open>abc\<close> it
  closed over.
\<close>

definition start_export :: "string option \<Rightarrow> kind \<Rightarrow> 'z app \<Rightarrow> 'z app" where
  "start_export cabc k a =
     (case cabc of
        None \<Rightarrow> a
      | Some t \<Rightarrow>
          if t = [] then a
          else a\<lparr>world := send (export_request k t) (world a), exporting := exporting a @ [k]\<rparr>)"

definition settle_export :: "(kind \<Rightarrow> string) \<Rightarrow> nat \<Rightarrow> thrown + blob \<Rightarrow> 'z app \<Rightarrow> 'z app" where
  "settle_export filename i r a =
     (if i < length (exporting a) then
        a\<lparr>world :=
            (case r of
               Inl e \<Rightarrow> world a
             | Inr b \<Rightarrow>
                 (fst (world a), downloadBlob b (filename (exporting a ! i)) (snd (world a)))),
          exporting := take i (exporting a) @ drop (Suc i) (exporting a)\<rparr>
      else a)"

text \<open>
  Modelled from the spec: the \<^verbatim>\<open>Button\<close> component (\<^verbatim>\<open>components/ui/Button\<close>) is not
  among the sources. The spec says that mutual exclusion is enforced by disabling the
  triggering action: a click on a button rendered with \<^verbatim>\<open>disabled\<close> true calls no
  handler, any other click calls \<^verbatim>\<open>onClick\<close>.
\<close>

definition Button_click :: "bool \<Rightarrow> ('a \<Rightarrow> 'a) \<Rightarrow> 'a \<Rightarrow> 'a" where
  "Button_click disabled onClick a = (if disabled then a else onClick a)"

text \<open>
  One event of a page. A click meets the page of the last committed render: the Generate
  button is disabled by the \<^verbatim>\<open>loading\<close> of that render
  (\<^verbatim>\<open>disabled={loading}\<close>), the download buttons are there if that render showed them,
  and the handler called is the one of that render. \<^const>\<open>Render\<close> commits the current
  state.
\<close>

fun AITone_step :: "aitone_input event \<Rightarrow> unit aitone_ext app \<Rightarrow> unit aitone_ext app" where
  "AITone_step ClickGenerate a =
     Button_click (loading (rendered a))
       (start_generate (audioUrl (rendered a)) (AITone_begin_from (rendered a))) a"
| "AITone_step (ClickDownload k) a =
     (if mode (rendered a) = Fast \<and> truthy (abc (rendered a))
      then Button_click False (start_export (abc (rendered a)) k) a else a)"
| "AITone_step (Edit i) a = a\<lparr>world := (AITone_input i (fst (world a)), snd (world a))\<rparr>"
| "AITone_step (AbcSettled i r) a = settle_abc i r a"
| "AITone_step (WavSettled i r) a = settle_wav i r a"
| "AITone_step (ExportSettled i r) a =
     settle_export (\<lambda>k. if k = Wav then ''ai-tone.wav'' else ''ai-tone.mid'') i r a"
| "AITone_step Render a = a\<lparr>rendered := fst (world a)\<rparr>"

fun Chatbot_step :: "chatbot_input event \<Rightarrow> unit chatbot_ext app \<Rightarrow> unit chatbot_ext app" where
  "Chatbot_step ClickGenerate a =
     Button_click (loading (rendered a))
       (start_generate (audioUrl (rendered a)) (Chatbot_begin_from (rendered a))) a"
| "Chatbot_step (ClickDownload k) a =
     (if truthy (abc (rendered a))
      then Button_click False (start_export (abc (rendered a)) k) a else a)"
| "Chatbot_step (Edit i) a = a\<lparr>world := (Chatbot_input i (fst (world a)), snd (world a))\<rparr>"
| "Chatbot_step (AbcSettled i r) a = settle_abc i r a"
| "Chatbot_step (WavSettled i r) a = settle_wav i r a"
| "Chatbot_step (ExportSettled i r) a =
     settle_export (\<lambda>k. if k = Wav then ''fusion.wav'' else ''fusion.mid'') i r a"
| "Chatbot_step Render a = a\<lparr>rendered := fst (world a)\<rparr>"

definition AITone_app :: "unit aitone_ext app" where
  "AITone_app =
     \<lparr>world = (AITone_init, browser_init), rendered = AITone_init, generating = [],
      exporting = []\<rparr>"

definition Chatbot_app :: "unit chatbot_ext app" where
  "Chatbot_app =
     \<lparr>world = (Chatbot_init, browser_init), rendered = Chatbot_init, generating = [],
      exporting = []\<rparr>"

definition AITone_after :: "aitone_input event list \<Rightarrow> unit aitone_ext app" where
  "AITone_after es = foldl (\<lambda>a e. AITone_step e a) AITone_app es"

definition Chatbot_after :: "chatbot_input event list \<Rightarrow> unit chatbot_ext app" where
  "Chatbot_after es = foldl (\<lambda>a e. Chatbot_step e a) Chatbot_app es"

text \<open>
  The \<^verbatim>\<open>loading\<close> on the page is the current one at every click on Generate of the
  events \<open>es\<close> that start in \<open>a\<close>: the page has rendered since \<^verbatim>\<open>loading\<close> last
  changed.
\<close>

fun AITone_timely :: "aitone_input event list \<Rightarrow> unit aitone_ext app \<Rightarrow> bool" where
  "AITone_timely [] a = True"
| "AITone_timely (e # es) a =
     ((e = ClickGenerate \<longrightarrow> loading (rendered a) = loading (fst (world a))) \<and>
      AITone_timely es (AITone_step e a))"

fun Chatbot_timely :: "chatbot_input event list \<Rightarrow> unit chatbot_ext app \<Rightarrow> bool" where
  "Chatbot_timely [] a = True"
| "Chatbot_timely (e # es) a =
     ((e = ClickGenerate \<longrightarrow> loading (rendered a) = loading (fst (world a))) \<and>
      Chatbot_timely es (Chatbot_step e a))"

text \<open>The events \<open>es\<close> with a render committed after each of them.\<close>

fun committed :: "'i event list \<Rightarrow> 'i event list" where
  "committed [] = []"
| "committed (e # es) = e # Render # committed es"

text \<open>
  At most one \<^verbatim>\<open>onGenerate\<close> is suspended, and \<^verbatim>\<open>loading\<close> says whether one is.
\<close>

definition gated :: "'z app \<Rightarrow> bool" where
  "gated a = (length (generating a) \<le> 1 \<and> (loading (fst (world a)) \<longleftrightarrow> generating a \<noteq> []))"

section \<open>The shared statements on an explicit state\<close>

lemma send_pair: "send r (s, w) = (s, w\<lparr>requests := requests w @ [r]\<rparr>)"
  by (simp add: send_def)

lemma enter_pair: "enter (s, w) = (s\<lparr>error := None, loading := True\<rparr>, w)"
  by (simp add: enter_def)

lemma setAbc_render_pair:
  "setAbc_render t (s, w) = (s\<lparr>abc := Some t\<rparr>, w\<lparr>requests := requests w @ [render_request t]\<rparr>)"
  by (simp add: setAbc_render_def send_def)

lemma setAbc_null_pair: "setAbc_null (s, w) = (s\<lparr>abc := None\<rparr>, w)"
  by (simp add: setAbc_null_def)

lemma publishAudio_pair:
  "publishAudio cu wav (s, w) =
     (s\<lparr>audioUrl := Some (BlobUrl (nextUrl w))\<rparr>,
      w\<lparr>objectURLs := (BlobUrl (nextUrl w), wav)
            # (case cu of Some u \<Rightarrow> filter (\<lambda>p. fst p \<noteq> u) (objectURLs w) | None \<Rightarrow> objectURLs w),
         nextUrl := Suc (nextUrl w),
         urlLog := urlLog w @ (case cu of Some u \<Rightarrow> [Revoked u] | None \<Rightarrow> [])
                     @ [Created (BlobUrl (nextUrl w))]\<rparr>)"
  by (cases cu) (simp_all add: publishAudio_def createObjectURL_def revokeObjectURL_def)

lemma catch_finally_pair:
  "catch_finally ex (s, w) =
     ((case ex of Some e \<Rightarrow> s\<lparr>error := Some (errorMessage e)\<rparr> | None \<Rightarrow> s)\<lparr>loading := False\<rparr>, w)"
  by (simp add: catch_finally_def)

lemma downloadBlob_eq:
  "downloadBlob b filename w =
     w\<lparr>objectURLs := filter (\<lambda>p. fst p \<noteq> BlobUrl (nextUrl w)) (objectURLs w),
       nextUrl := Suc (nextUrl w),
       urlLog := urlLog w @ [Created (BlobUrl (nextUrl w)), Revoked (BlobUrl (nextUrl w))],
       downloads := downloads w @ [(filename, Some b)]\<rparr>"
  by (simp add: downloadBlob_def createObjectURL_def revokeObjectURL_def)

lemmas seg =
  send_pair enter_pair setAbc_render_pair setAbc_null_pair publishAudio_pair catch_finally_pair

lemma filter_fresh: "u \<notin> set (map fst xs) \<Longrightarrow> filter (\<lambda>p. fst p \<noteq> u) xs = xs"
  by (induction xs) auto

section \<open>A generation that fails\<close>

lemma generate_fails_aitone:
  "(case AITone_onGenerate abcReply (Inl e) (s, w) of
      (s', w') \<Rightarrow>
        audioUrl s' = audioUrl s \<and> objectURLs w' = objectURLs w \<and> urlLog w' = urlLog w \<and>
        nextUrl w' = nextUrl w \<and> \<not> loading s' \<and>
        abc s' = (if mode s = Fast then (case abcReply of Inl e' \<Rightarrow> abc s | Inr t \<Rightarrow> Some t)
                  else None))"
  by (cases abcReply)
    (simp_all add: AITone_onGenerate_def runFast_def runDirect_def seg)

lemma notation_fails_aitone:
  "mode s = Fast \<Longrightarrow>
     AITone_onGenerate (Inl e) wavReply (s, w) =
       (s\<lparr>error := Some (errorMessage e), loading := False\<rparr>,
        w\<lparr>requests := requests w @ [notation_request s]\<rparr>)"
  by (simp add: AITone_onGenerate_def runFast_def seg)

lemma notation_fails_chatbot:
  "Chatbot_onGenerate (Inl e) wavReply (c, w) =
     (c\<lparr>error := Some (errorMessage e), loading := False\<rparr>,
      w\<lparr>requests := requests w @ [hf_request c]\<rparr>)"
  by (simp add: Chatbot_onGenerate_def seg)

section \<open>Handles stay in order\<close>

lemma handles_ok_iff:
  "handles_ok (s, w) \<longleftrightarrow>
     map fst (objectURLs w) = (case audioUrl s of None \<Rightarrow> [] | Some u \<Rightarrow> [u]) \<and>
     (\<forall>i<nextUrl w. count_list (urlLog w) (Created (BlobUrl i)) = 1 \<and>
        count_list (urlLog w) (Revoked (BlobUrl i))
          = (if audioUrl s = Some (BlobUrl i) then 0 else 1)) \<and>
     (\<forall>e\<in>set (urlLog w). url_id (event_url e) < nextUrl w) \<and>
     (\<forall>u. audioUrl s = Some u \<longrightarrow> url_id u < nextUrl w)"
  by (auto simp add: handles_ok_def live_is_published_def released_once_def
      urls_handed_out_def list_all_iff split: option.splits)

lemma unused_url:
  assumes "\<forall>e\<in>set l. url_id (event_url e) < n"
  shows "count_list l (Created (BlobUrl n)) = 0" and "count_list l (Revoked (BlobUrl n)) = 0"
  using assms by (auto simp add: count_list_0_iff url_id_def event_url_def)

lemma handles_ok_fresh: "handles_ok (s, w) \<Longrightarrow> fresh w"
  by (auto simp add: handles_ok_iff fresh_def url_id_def split: option.splits)

lemma handles_ok_publish:
  fixes w w' :: browser
  assumes "handles_ok (s, w)" and "audioUrl s' = audioUrl s" and "objectURLs w' = objectURLs w"
    and "urlLog w' = urlLog w" and "nextUrl w' = nextUrl w"
  shows "handles_ok (catch_finally None (publishAudio (audioUrl s) wav (s', w')))"
proof (cases "audioUrl s")
  case None
  with assms show ?thesis
    by (auto simp add: handles_ok_iff publishAudio_pair catch_finally_pair less_Suc_eq
        unused_url url_id_def event_url_def)
next
  case (Some u)
  obtain j where u: "u = BlobUrl j" by (cases u)
  from assms Some u have j: "j < nextUrl w"
    by (simp add: handles_ok_iff url_id_def)
  from assms Some u j show ?thesis
    by (auto simp add: handles_ok_iff publishAudio_pair catch_finally_pair less_Suc_eq
        unused_url url_id_def event_url_def)
qed

lemma handles_ok_download:
  fixes w w' :: browser
  assumes "handles_ok (s, w)" and "objectURLs w' = objectURLs w"
    and "urlLog w' = urlLog w" and "nextUrl w' = nextUrl w"
  shows "handles_ok (s, downloadBlob b f w')"
proof -
  from assms(1) have "BlobUrl (nextUrl w) \<notin> set (map fst (objectURLs w))"
    using handles_ok_fresh by (simp add: fresh_def)
  then have "filter (\<lambda>p. fst p \<noteq> BlobUrl (nextUrl w)) (objectURLs w) = objectURLs w"
    by (rule filter_fresh)
  with assms show ?thesis
    by (auto simp add: handles_ok_iff downloadBlob_eq less_Suc_eq unused_url url_id_def
        event_url_def)
qed

lemma handles_ok_AITone_onGenerate:
  assumes "handles_ok (s, w)"
  shows "handles_ok (AITone_onGenerate abcReply wavReply (s, w))"
proof (cases wavReply)
  case (Inl e)
  have "handles_ok (AITone_onGenerate abcReply (Inl e) (s, w)) = handles_ok (s, w)"
    using generate_fails_aitone [where abcReply = abcReply and e = e and s = s and w = w]
    by (cases "AITone_onGenerate abcReply (Inl e) (s, w)") (simp add: handles_ok_iff)
  with assms Inl show ?thesis by simp
next
  case (Inr wav)
  show ?thesis
  proof (cases "mode s = Fast")
    case True
    show ?thesis
    proof (cases abcReply)
      case (Inl e)
      with True assms show ?thesis
        by (simp add: notation_fails_aitone handles_ok_iff)
    next
      case abc: (Inr t)
      with True Inr assms show ?thesis
        by (simp add: AITone_onGenerate_def runFast_def send_pair enter_pair
            setAbc_render_pair handles_ok_publish)
    qed
  next
    case False
    with Inr assms show ?thesis
      by (simp add: AITone_onGenerate_def runDirect_def send_pair enter_pair
          setAbc_null_pair handles_ok_publish)
  qed
qed

lemma handles_ok_Chatbot_onGenerate:
  assumes "handles_ok (c, w)"
  shows "handles_ok (Chatbot_onGenerate abcReply wavReply (c, w))"
proof (cases abcReply)
  case (Inl e)
  with assms show ?thesis
    by (simp add: notation_fails_chatbot handles_ok_iff)
next
  case abc: (Inr t)
  show ?thesis
  proof (cases wavReply)
    case (Inl e)
    with abc assms show ?thesis
      by (simp add: Chatbot_onGenerate_def send_pair enter_pair setAbc_render_pair
          catch_finally_pair handles_ok_iff)
  next
    case (Inr wav)
    with abc assms show ?thesis
      by (simp add: Chatbot_onGenerate_def send_pair enter_pair setAbc_render_pair
          handles_ok_publish)
  qed
qed

lemma handles_ok_AITone_onDownload:
  assumes "handles_ok (s, w)"
  shows "handles_ok (snd (AITone_onDownload k reply (s, w)))"
proof (cases "truthy (abc s)")
  case False
  with assms show ?thesis
    by (simp add: AITone_onDownload_def truthy_def split: option.splits)
next
  case True
  then obtain t where t: "abc s = Some t" "t \<noteq> []"
    by (auto simp add: truthy_def split: option.splits)
  show ?thesis
  proof (cases reply)
    case (Inl e)
    with t assms show ?thesis
      by (simp add: AITone_onDownload_def send_pair handles_ok_iff)
  next
    case (Inr b)
    with t assms show ?thesis
      by (simp add: AITone_onDownload_def send_pair handles_ok_download)
  qed
qed

lemma handles_ok_Chatbot_onDownload:
  assumes "handles_ok (c, w)"
  shows "handles_ok (snd (Chatbot_onDownload k reply (c, w)))"
proof (cases "truthy (abc c)")
  case False
  with assms show ?thesis
    by (simp add: Chatbot_onDownload_def truthy_def split: option.splits)
next
  case True
  then obtain t where t: "abc c = Some t" "t \<noteq> []"
    by (auto simp add: truthy_def split: option.splits)
  show ?thesis
  proof (cases reply)
    case (Inl e)
    with t assms show ?thesis
      by (simp add: Chatbot_onDownload_def send_pair handles_ok_iff)
  next
    case (Inr b)
    with t assms show ?thesis
      by (simp add: Chatbot_onDownload_def send_pair handles_ok_download)
  qed
qed

lemma audioUrl_AITone_input: "audioUrl (AITone_input i s) = audioUrl s"
  by (cases i) simp_all

lemma audioUrl_Chatbot_input: "audioUrl (Chatbot_input i s) = audioUrl s"
  by (cases i) simp_all

lemma handles_ok_AITone_exec: "handles_ok \<sigma> \<Longrightarrow> handles_ok (AITone_exec c \<sigma>)"
  by (cases \<sigma>; cases c)
    (simp_all add: handles_ok_AITone_onGenerate handles_ok_AITone_onDownload
      handles_ok_iff audioUrl_AITone_input)

lemma handles_ok_Chatbot_exec: "handles_ok \<sigma> \<Longrightarrow> handles_ok (Chatbot_exec c \<sigma>)"
  by (cases \<sigma>; cases c)
    (simp_all add: handles_ok_Chatbot_onGenerate handles_ok_Chatbot_onDownload
      handles_ok_iff audioUrl_Chatbot_input)

lemma handles_ok_AITone_foldl:
  "handles_ok \<sigma> \<Longrightarrow> handles_ok (foldl (\<lambda>\<sigma> c. AITone_exec c \<sigma>) \<sigma> cs)"
  by (induction cs arbitrary: \<sigma>) (simp_all add: handles_ok_AITone_exec)

lemma handles_ok_Chatbot_foldl:
  "handles_ok \<sigma> \<Longrightarrow> handles_ok (foldl (\<lambda>\<sigma> c. Chatbot_exec c \<sigma>) \<sigma> cs)"
  by (induction cs arbitrary: \<sigma>) (simp_all add: handles_ok_Chatbot_exec)

lemma handles_ok_init:
  "handles_ok (AITone_init, browser_init)" "handles_ok (Chatbot_init, browser_init)"
  by (simp_all add: handles_ok_iff AITone_init_def Chatbot_init_def browser_init_def)

lemma handles_ok_run: "handles_ok (AITone_run cs)" "handles_ok (Chatbot_run ds)"
  unfolding AITone_run_def Chatbot_run_def
  by (rule handles_ok_AITone_foldl handles_ok_Chatbot_foldl, rule handles_ok_init)+

text \<open>In every session the browser's next URL is unused, as \<^const>\<open>fresh\<close> asks.\<close>

lemma handles_ok_fresh_snd: "handles_ok \<sigma> \<Longrightarrow> fresh (snd \<sigma>)"
  by (cases \<sigma>) (simp add: handles_ok_fresh)

lemma fresh_run: "fresh (snd (AITone_run cs))" "fresh (snd (Chatbot_run ds))"
  by (rule handles_ok_fresh_snd, rule handles_ok_run)+

lemma release_then_publish_aitone:
  "(mode s = Fast \<longrightarrow> abcReply = Inr t) \<Longrightarrow>
     urlLog (snd (AITone_onGenerate abcReply (Inr wav) (s, w)))
       = urlLog w @ (case audioUrl s of Some u \<Rightarrow> [Revoked u] | None \<Rightarrow> [])
           @ [Created (BlobUrl (nextUrl w))]"
  by (cases "mode s = Fast")
    (simp_all add: AITone_onGenerate_def runFast_def runDirect_def seg)

lemma release_then_publish_chatbot:
  "urlLog (snd (Chatbot_onGenerate (Inr t) (Inr wav) (c, w)))
     = urlLog w @ (case audioUrl c of Some u \<Rightarrow> [Revoked u] | None \<Rightarrow> [])
         @ [Created (BlobUrl (nextUrl w))]"
  by (simp add: Chatbot_onGenerate_def seg)

section \<open>One generation at a time\<close>

lemma AITone_begin_current: "AITone_begin \<sigma> = AITone_begin_from (fst \<sigma>) \<sigma>"
  by (simp add: AITone_begin_def AITone_begin_from_def)

lemma Chatbot_begin_current: "Chatbot_begin \<sigma> = Chatbot_begin_from (fst \<sigma>) \<sigma>"
  by (simp add: Chatbot_begin_def Chatbot_begin_from_def)

lemma loading_send: "loading (fst (send r \<sigma>)) = loading (fst \<sigma>)"
  by (cases \<sigma>) (simp add: send_pair)

lemma loading_setAbc_render: "loading (fst (setAbc_render t \<sigma>)) = loading (fst \<sigma>)"
  by (cases \<sigma>) (simp add: setAbc_render_pair)

lemma loading_catch_finally: "\<not> loading (fst (catch_finally ex \<sigma>))"
  by (cases \<sigma>) (simp add: catch_finally_pair)

lemma gated_settle_abc: "gated a \<Longrightarrow> gated (settle_abc i r a)"
  by (cases r)
    (auto simp add: gated_def settle_abc_def loading_setAbc_render loading_catch_finally)

lemma gated_settle_wav: "gated a \<Longrightarrow> gated (settle_wav i r a)"
  by (auto simp add: gated_def settle_wav_def loading_catch_finally split: sum.splits)

lemma gated_start_export: "gated a \<Longrightarrow> gated (start_export cabc k a)"
  by (auto simp add: gated_def start_export_def loading_send split: option.splits)

lemma gated_settle_export: "gated a \<Longrightarrow> gated (settle_export f i r a)"
  by (auto simp add: gated_def settle_export_def split: sum.splits)

lemma loading_AITone_begin_from: "loading (fst (fst (AITone_begin_from c \<sigma>)))"
  by (cases \<sigma>) (simp add: AITone_begin_from_def seg)

lemma loading_Chatbot_begin_from: "loading (fst (fst (Chatbot_begin_from c \<sigma>)))"
  by (cases \<sigma>) (simp add: Chatbot_begin_from_def seg)

lemma gated_click_AITone:
  "gated a \<Longrightarrow> loading (rendered a) = loading (fst (world a)) \<Longrightarrow>
     gated (AITone_step ClickGenerate a)"
  using loading_AITone_begin_from [of "rendered a" "world a"]
  by (auto simp add: gated_def Button_click_def start_generate_def case_prod_beta)

lemma gated_click_Chatbot:
  "gated a \<Longrightarrow> loading (rendered a) = loading (fst (world a)) \<Longrightarrow>
     gated (Chatbot_step ClickGenerate a)"
  using loading_Chatbot_begin_from [of "rendered a" "world a"]
  by (auto simp add: gated_def Button_click_def start_generate_def case_prod_beta)

lemma loading_AITone_input: "loading (AITone_input i s) = loading s"
  by (cases i) simp_all

lemma loading_Chatbot_input: "loading (Chatbot_input i s) = loading s"
  by (cases i) simp_all

lemma gated_AITone_step:
  assumes "gated a" and "e = ClickGenerate \<longrightarrow> loading (rendered a) = loading (fst (world a))"
  shows "gated (AITone_step e a)"
proof (cases e)
  case ClickGenerate
  with assms show ?thesis by (simp only: gated_click_AITone)
next
  case (ClickDownload k)
  with assms show ?thesis by (simp add: gated_start_export Button_click_def)
next
  case (Edit i)
  with assms show ?thesis by (simp add: gated_def loading_AITone_input)
next
  case Render
  with assms show ?thesis by (simp add: gated_def)
qed (simp_all add: assms gated_settle_abc gated_settle_wav gated_settle_export)

lemma gated_Chatbot_step:
  assumes "gated a" and "e = ClickGenerate \<longrightarrow> loading (rendered a) = loading (fst (world a))"
  shows "gated (Chatbot_step e a)"
proof (cases e)
  case ClickGenerate
  with assms show ?thesis by (simp only: gated_click_Chatbot)
next
  case (ClickDownload k)
  with assms show ?thesis by (simp add: gated_start_export Button_click_def)
next
  case (Edit i)
  with assms show ?thesis by (simp add: gated_def loading_Chatbot_input)
next
  case Render
  with assms show ?thesis by (simp add: gated_def)
qed (simp_all add: assms gated_settle_abc gated_settle_wav gated_settle_export)

lemma gated_AITone_foldl:
  "gated a \<Longrightarrow> AITone_timely es a \<Longrightarrow> gated (foldl (\<lambda>a e. AITone_step e a) a es)"
  by (induction es arbitrary: a) (simp_all add: gated_AITone_step)

lemma gated_Chatbot_foldl:
  "gated a \<Longrightarrow> Chatbot_timely es a \<Longrightarrow> gated (foldl (\<lambda>a e. Chatbot_step e a) a es)"
  by (induction es arbitrary: a) (simp_all add: gated_Chatbot_step)

lemma gated_app: "gated AITone_app" "gated Chatbot_app"
  by (simp_all add: gated_def AITone_app_def Chatbot_app_def AITone_init_def Chatbot_init_def)

lemma gated_after:
  "AITone_timely es AITone_app \<Longrightarrow> gated (AITone_after es)"
  "Chatbot_timely ds Chatbot_app \<Longrightarrow> gated (Chatbot_after ds)"
  unfolding AITone_after_def Chatbot_after_def
  by (simp_all add: gated_AITone_foldl gated_Chatbot_foldl gated_app)

text \<open>
  When the page renders after every event, as it does when every click and every
  settling call is a task of its own, each click on Generate meets the current
  \<^verbatim>\<open>loading\<close>.
\<close>

lemma AITone_timely_committed:
  "rendered a = fst (world a) \<Longrightarrow> AITone_timely (committed es) a"
  by (induction es arbitrary: a) simp_all

lemma Chatbot_timely_committed:
  "rendered a = fst (world a) \<Longrightarrow> Chatbot_timely (committed es) a"
  by (induction es arbitrary: a) simp_all

lemma timely_committed_app:
  "AITone_timely (committed es) AITone_app" "Chatbot_timely (committed ds) Chatbot_app"
  by (simp_all add: AITone_timely_committed Chatbot_timely_committed AITone_app_def
      Chatbot_app_def)

text \<open>
  A click on Generate on a page that is up to date, followed by the settling of its
  calls with nothing in between, leaves the state that \<^verbatim>\<open>onGenerate\<close> run to its end
  leaves.
\<close>

lemma AITone_steps_agree:
  assumes "rendered a = fst (world a)" and "\<not> loading (fst (world a))" and "generating a = []"
  shows "world (AITone_step (WavSettled 0 wavReply)
                  (AITone_step (AbcSettled 0 abcReply) (AITone_step ClickGenerate a)))
           = AITone_onGenerate abcReply wavReply (world a)"
proof (cases "world a")
  case (Pair s w)
  with assms show ?thesis
    by (cases abcReply; cases wavReply)
      (simp_all add: Button_click_def start_generate_def AITone_begin_from_def settle_abc_def
        settle_wav_def AITone_onGenerate_def runFast_def runDirect_def seg)
qed

lemma Chatbot_steps_agree:
  assumes "rendered a = fst (world a)" and "\<not> loading (fst (world a))" and "generating a = []"
  shows "world (Chatbot_step (WavSettled 0 wavReply)
                  (Chatbot_step (AbcSettled 0 abcReply) (Chatbot_step ClickGenerate a)))
           = Chatbot_onGenerate abcReply wavReply (world a)"
proof (cases "world a")
  case (Pair s w)
  with assms show ?thesis
    by (cases abcReply; cases wavReply)
      (simp_all add: Button_click_def start_generate_def Chatbot_begin_from_def settle_abc_def
        settle_wav_def Chatbot_onGenerate_def seg)
qed

section \<open>The claims\<close>

text \<open>
  C1, as amended. For every fast generation in which both calls succeed (AITone in fast
  mode, and Chatbot), the notation call is issued first and the render call second, with
  exactly the text \<open>t\<close> that the notation call returned; the published \<^verbatim>\<open>abc\<close> is \<open>t\<close>,
  truthy whenever \<open>t\<close> is not empty; and the published \<^verbatim>\<open>audioUrl\<close> is a new object URL
  of the bytes \<open>wav\<close> that the render call returned. The pages do not test \<open>t\<close>: the
  notation is non-empty only if the backend's answer is.
\<close>

theorem C1_fast_generation_amended:
  "(mode s = Fast \<longrightarrow>
      (case AITone_onGenerate (Inr t) (Inr wav) (s, w) of
         (s', w') \<Rightarrow>
           requests w' = requests w @ [notation_request s, render_request t] \<and>
           abc s' = Some t \<and> (t \<noteq> [] \<longrightarrow> truthy (abc s')) \<and>
           audioUrl s' = Some (BlobUrl (nextUrl w)) \<and>
           map_of (objectURLs w') (BlobUrl (nextUrl w)) = Some wav \<and>
           status s' = Ready)) \<and>
   (case Chatbot_onGenerate (Inr t) (Inr wav) (c, w) of
      (c', w') \<Rightarrow>
        requests w' = requests w @ [hf_request c, render_request t] \<and>
        abc c' = Some t \<and> (t \<noteq> [] \<longrightarrow> truthy (abc c')) \<and>
        audioUrl c' = Some (BlobUrl (nextUrl w)) \<and>
        map_of (objectURLs w') (BlobUrl (nextUrl w)) = Some wav \<and>
        status c' = Ready)"
  by (simp add: AITone_onGenerate_def runFast_def Chatbot_onGenerate_def seg status_def truthy_def)

theorem C1_fast_generation_witness:
  "mode AITone_init = Fast \<and> ''X:1'' \<noteq> [] \<and>
   abc (fst (AITone_onGenerate (Inr ''X:1'') (Inr (Blob [82, 73, 70, 70]))
               (AITone_init, browser_init))) = Some ''X:1'' \<and>
   requests (snd (AITone_onGenerate (Inr ''X:1'') (Inr (Blob [82, 73, 70, 70]))
                    (AITone_init, browser_init)))
     = [notation_request AITone_init, render_request ''X:1''] \<and>
   abc (fst (Chatbot_onGenerate (Inr ''X:1'') (Inr (Blob [82, 73, 70, 70]))
               (Chatbot_init, browser_init))) = Some ''X:1''"
  using C1_fast_generation_amended [where s = AITone_init and t = "''X:1''"
      and wav = "Blob [82, 73, 70, 70]" and w = browser_init and c = Chatbot_init]
  by (simp add: AITone_init_def browser_init_def case_prod_beta)

text \<open>
  C1 as stated fails: when the notation call of a successful fast generation returns the
  empty text, the generation ends in \<^const>\<open>Ready\<close> with an empty, falsy \<^verbatim>\<open>abc\<close>.
\<close>

theorem C1_empty_notation_counterexample:
  "abc (fst (AITone_onGenerate (Inr []) (Inr (Blob [82, 73, 70, 70]))
               (AITone_init, browser_init))) = Some [] \<and>
   \<not> truthy (abc (fst (AITone_onGenerate (Inr []) (Inr (Blob [82, 73, 70, 70]))
                         (AITone_init, browser_init)))) \<and>
   status (fst (AITone_onGenerate (Inr []) (Inr (Blob [82, 73, 70, 70]))
                  (AITone_init, browser_init))) = Ready"
  by (simp add: AITone_onGenerate_def runFast_def seg AITone_init_def browser_init_def
      truthy_def status_def)

text \<open>
  C2, as amended. For every generation that fails, the published \<^verbatim>\<open>audioUrl\<close> and the
  browser's object URLs are left as they were, and the session is \<^const>\<open>Failed\<close>. The
  published notation is left as it was when the notation call fails; it is the new text
  \<open>t\<close> when the render call fails after the notation call returned \<open>t\<close>; and it is
  cleared when a direct generation fails.
\<close>

theorem C2_failed_generation_amended:
  "(mode s = Fast \<longrightarrow>
      (case AITone_onGenerate (Inl e) wavReply (s, w) of
         (s', w') \<Rightarrow>
           abc s' = abc s \<and> audioUrl s' = audioUrl s \<and> objectURLs w' = objectURLs w \<and>
           urlLog w' = urlLog w \<and> status s' = Failed (errorMessage e))) \<and>
   (mode s = Fast \<longrightarrow>
      (case AITone_onGenerate (Inr t) (Inl e) (s, w) of
         (s', w') \<Rightarrow>
           abc s' = Some t \<and> audioUrl s' = audioUrl s \<and> objectURLs w' = objectURLs w \<and>
           urlLog w' = urlLog w \<and> status s' = Failed (errorMessage e))) \<and>
   (mode s = Direct \<longrightarrow>
      (case AITone_onGenerate abcReply (Inl e) (s, w) of
         (s', w') \<Rightarrow>
           abc s' = None \<and> audioUrl s' = audioUrl s \<and> objectURLs w' = objectURLs w \<and>
           urlLog w' = urlLog w \<and> status s' = Failed (errorMessage e))) \<and>
   (case Chatbot_onGenerate (Inl e) wavReply (c, w) of
      (c', w') \<Rightarrow>
        abc c' = abc c \<and> audioUrl c' = audioUrl c \<and> objectURLs w' = objectURLs w \<and>
        urlLog w' = urlLog w \<and> status c' = Failed (errorMessage e)) \<and>
   (case Chatbot_onGenerate (Inr t) (Inl e) (c, w) of
      (c', w') \<Rightarrow>
        abc c' = Some t \<and> audioUrl c' = audioUrl c \<and> objectURLs w' = objectURLs w \<and>
        urlLog w' = urlLog w \<and> status c' = Failed (errorMessage e))"
  by (simp add: AITone_onGenerate_def runFast_def runDirect_def Chatbot_onGenerate_def seg
      status_def)

theorem C2_failed_generation_witness:
  "mode (AITone_init\<lparr>abc := Some ''X:1''\<rparr>) = Fast \<and>
   mode (AITone_init\<lparr>mode := Direct, abc := Some ''X:1''\<rparr>) = Direct \<and>
   abc (fst (AITone_onGenerate (Inl NonError) (Inr (Blob []))
               (AITone_init\<lparr>abc := Some ''X:1''\<rparr>, browser_init))) = Some ''X:1'' \<and>
   abc (fst (AITone_onGenerate (Inr ''X:2'') (Inl NonError)
               (AITone_init\<lparr>mode := Direct, abc := Some ''X:1''\<rparr>, browser_init))) = None"
  using C2_failed_generation_amended [where s = "AITone_init\<lparr>abc := Some ''X:1''\<rparr>"
      and e = NonError and wavReply = "Inr (Blob [])" and w = browser_init and t = "''X:2''"
      and abcReply = "Inr ''X:2''" and c = Chatbot_init]
    C2_failed_generation_amended [where s = "AITone_init\<lparr>mode := Direct, abc := Some ''X:1''\<rparr>"
      and e = NonError and wavReply = "Inr (Blob [])" and w = browser_init and t = "''X:2''"
      and abcReply = "Inr ''X:2''" and c = Chatbot_init]
  by (simp add: AITone_init_def case_prod_beta)

text \<open>
  C2 as stated fails: after a fast generation has published the notation \<^verbatim>\<open>X:1\<close>, a
  second fast generation whose notation call returns \<^verbatim>\<open>X:2\<close> and whose render call is
  rejected ends \<^const>\<open>Failed\<close> with \<^verbatim>\<open>X:2\<close> published.
\<close>

theorem C2_render_fails_counterexample:
  "abc (fst (AITone_run [Generate (Inr ''X:1'') (Inr (Blob [82, 73, 70, 70]))])) = Some ''X:1'' \<and>
   status (fst (AITone_run [Generate (Inr ''X:1'') (Inr (Blob [82, 73, 70, 70]))])) = Ready \<and>
   abc (fst (AITone_run [Generate (Inr ''X:1'') (Inr (Blob [82, 73, 70, 70])),
                         Generate (Inr ''X:2'') (Inl (ErrorObj ''render failed''))]))
     = Some ''X:2'' \<and>
   status (fst (AITone_run [Generate (Inr ''X:1'') (Inr (Blob [82, 73, 70, 70])),
                            Generate (Inr ''X:2'') (Inl (ErrorObj ''render failed''))]))
     = Failed ''render failed''"
  by (simp add: AITone_run_def AITone_onGenerate_def runFast_def seg AITone_init_def
      browser_init_def status_def errorMessage_def)

text \<open>
  C3. For every successful direct generation, exactly one call is issued, a
  \<^verbatim>\<open>postBlob\<close> with the fields \<^verbatim>\<open>prompt\<close>, \<^verbatim>\<open>bpm\<close>, \<^verbatim>\<open>density\<close>, \<^verbatim>\<open>brightness\<close>,
  \<^verbatim>\<open>guidance\<close> and \<^verbatim>\<open>duration_seconds\<close>; afterwards the published notation is absent
  whatever it was before, and the published \<^verbatim>\<open>audioUrl\<close> is a new object URL of the
  bytes that call returned.
\<close>

theorem C3_direct_generation:
  "mode s = Direct \<Longrightarrow>
     (case AITone_onGenerate abcReply (Inr wav) (s, w) of
        (s', w') \<Rightarrow>
          requests w' = requests w @
            [PostBlob ''/api/gemini/audio/wav''
               [(''prompt'', JStr (prompt s)), (''bpm'', JNum (bpm s)),
                (''density'', JNum (density s)), (''brightness'', JNum (brightness s)),
                (''guidance'', JNum (guidance s)), (''duration_seconds'', JNum (duration s))]] \<and>
          abc s' = None \<and>
          audioUrl s' = Some (BlobUrl (nextUrl w)) \<and>
          map_of (objectURLs w') (BlobUrl (nextUrl w)) = Some wav \<and>
          status s' = Ready)"
  by (simp add: AITone_onGenerate_def runDirect_def direct_request_def seg status_def)

theorem C3_direct_generation_witness:
  "mode (AITone_init\<lparr>mode := Direct, abc := Some ''X:1''\<rparr>) = Direct \<and>
   abc (fst (AITone_onGenerate (Inl NonError) (Inr (Blob [82]))
               (AITone_init\<lparr>mode := Direct, abc := Some ''X:1''\<rparr>, browser_init))) = None \<and>
   requests (snd (AITone_onGenerate (Inl NonError) (Inr (Blob [82]))
               (AITone_init\<lparr>mode := Direct, abc := Some ''X:1''\<rparr>, browser_init)))
     = [PostBlob ''/api/gemini/audio/wav''
          [(''prompt'', JStr []), (''bpm'', JNum 120), (''density'', JNum (8 / 10)),
           (''brightness'', JNum (7 / 10)), (''guidance'', JNum 4),
           (''duration_seconds'', JNum 12)]]"
  using C3_direct_generation [where s = "AITone_init\<lparr>mode := Direct, abc := Some ''X:1''\<rparr>"
      and abcReply = "Inl NonError" and wav = "Blob [82]" and w = browser_init]
  by (simp add: AITone_init_def browser_init_def case_prod_beta)

text \<open>
  C4. After any session of handlers run one after the other (generations in either mode
  with any outcomes, exports, changes of the controls), the only live object URL is the
  published \<^verbatim>\<open>audioUrl\<close>, so at most one handle is live, and every other URL handed
  out was revoked exactly once (\<^const>\<open>handles_ok\<close>). A successful generation revokes
  the previous \<^verbatim>\<open>audioUrl\<close>, if there is one, and only then creates the new one.
\<close>

theorem C4_one_live_handle:
  "handles_ok (AITone_run cs) \<and> length (objectURLs (snd (AITone_run cs))) \<le> 1 \<and>
   handles_ok (Chatbot_run ds) \<and> length (objectURLs (snd (Chatbot_run ds))) \<le> 1 \<and>
   ((mode s = Fast \<longrightarrow> abcReply = Inr t) \<longrightarrow>
      urlLog (snd (AITone_onGenerate abcReply (Inr wav) (s, w)))
        = urlLog w @ (case audioUrl s of Some u \<Rightarrow> [Revoked u] | None \<Rightarrow> [])
            @ [Created (BlobUrl (nextUrl w))]) \<and>
   urlLog (snd (Chatbot_onGenerate (Inr t) (Inr wav) (c, w)))
     = urlLog w @ (case audioUrl c of Some u \<Rightarrow> [Revoked u] | None \<Rightarrow> [])
         @ [Created (BlobUrl (nextUrl w))]"
proof -
  have one: "length (objectURLs (snd \<sigma>)) \<le> 1" if "handles_ok \<sigma>"
    for \<sigma> :: "'z page_scheme \<times> browser"
  proof -
    from that have "length (map fst (objectURLs (snd \<sigma>))) \<le> 1"
      by (cases \<sigma>) (simp add: handles_ok_iff split: option.splits)
    then show ?thesis by simp
  qed
  from handles_ok_run(1) [of cs] handles_ok_run(2) [of ds]
    one [OF handles_ok_run(1) [of cs]] one [OF handles_ok_run(2) [of ds]]
  show ?thesis
    using release_then_publish_aitone [of s abcReply t wav w]
    by (simp add: release_then_publish_chatbot)
qed

theorem C4_one_live_handle_witness:
  "mode AITone_init = Fast \<and>
   map fst (objectURLs (snd (AITone_run
     [Generate (Inr ''X:1'') (Inr (Blob [82])), Change (SetMode Direct),
      Generate (Inl NonError) (Inr (Blob [83]))]))) = [BlobUrl 1] \<and>
   urlLog (snd (AITone_run
     [Generate (Inr ''X:1'') (Inr (Blob [82])), Change (SetMode Direct),
      Generate (Inl NonError) (Inr (Blob [83]))]))
     = [Created (BlobUrl 0), Revoked (BlobUrl 0), Created (BlobUrl 1)] \<and>
   urlLog (snd (Chatbot_run
     [Generate (Inr ''X:1'') (Inr (Blob [82])), Export Wav (Inr (Blob [84])),
      Generate (Inr ''X:2'') (Inr (Blob [83]))]))
     = [Created (BlobUrl 0), Created (BlobUrl 1), Revoked (BlobUrl 1), Revoked (BlobUrl 0),
        Created (BlobUrl 2)] \<and>
   urlLog (snd (AITone_onGenerate (Inr ''X:1'') (Inr (Blob [82])) (AITone_init, browser_init)))
     = [Created (BlobUrl 0)]"
  using C4_one_live_handle [where s = AITone_init and abcReply = "Inr ''X:1''"
      and t = "''X:1''" and wav = "Blob [82]" and w = browser_init and c = Chatbot_init
      and cs = "[Generate (Inr ''X:1'') (Inr (Blob [82])), Change (SetMode Direct),
                 Generate (Inl NonError) (Inr (Blob [83]))]"
      and ds = "[Generate (Inr ''X:1'') (Inr (Blob [82])), Export Wav (Inr (Blob [84])),
                 Generate (Inr ''X:2'') (Inr (Blob [83]))]"]
  by (simp add: AITone_run_def Chatbot_run_def AITone_onGenerate_def Chatbot_onGenerate_def
      Chatbot_onDownload_def runFast_def runDirect_def seg downloadBlob_eq AITone_init_def
      Chatbot_init_def browser_init_def)

text \<open>
  C5, as amended. Take any clicks, edits, settling calls and renders, in any order, in
  which every click on Generate meets a page whose \<^verbatim>\<open>loading\<close> is the current one
  (\<^const>\<open>AITone_timely\<close>, \<^const>\<open>Chatbot_timely\<close>). Then at most one \<^verbatim>\<open>onGenerate\<close> is
  in flight; one is in flight exactly when the session is \<^const>\<open>Generating\<close>; and a
  further click on Generate, on a page that shows the current \<^verbatim>\<open>loading\<close>, changes
  nothing while one is in flight. The button is \<^const>\<open>Button_click\<close>.
\<close>

theorem C5_one_generation_in_flight_amended:
  "(AITone_timely es AITone_app \<longrightarrow>
      length (generating (AITone_after es)) \<le> 1 \<and>
      (generating (AITone_after es) \<noteq> [] \<longrightarrow>
         status (fst (world (AITone_after es))) = Generating) \<and>
      (status (fst (world (AITone_after es))) = Generating \<longrightarrow>
         generating (AITone_after es) \<noteq> []) \<and>
      (generating (AITone_after es) \<noteq> [] \<and>
       loading (rendered (AITone_after es)) = loading (fst (world (AITone_after es))) \<longrightarrow>
         AITone_step ClickGenerate (AITone_after es) = AITone_after es)) \<and>
   (Chatbot_timely ds Chatbot_app \<longrightarrow>
      length (generating (Chatbot_after ds)) \<le> 1 \<and>
      (generating (Chatbot_after ds) \<noteq> [] \<longrightarrow>
         status (fst (world (Chatbot_after ds))) = Generating) \<and>
      (status (fst (world (Chatbot_after ds))) = Generating \<longrightarrow>
         generating (Chatbot_after ds) \<noteq> []) \<and>
      (generating (Chatbot_after ds) \<noteq> [] \<and>
       loading (rendered (Chatbot_after ds)) = loading (fst (world (Chatbot_after ds))) \<longrightarrow>
         Chatbot_step ClickGenerate (Chatbot_after ds) = Chatbot_after ds))"
proof -
  have "gated a \<Longrightarrow>
      length (generating a) \<le> 1 \<and>
      (generating a \<noteq> [] \<longrightarrow> status (fst (world a)) = Generating) \<and>
      (status (fst (world a)) = Generating \<longrightarrow> generating a \<noteq> []) \<and>
      (generating a \<noteq> [] \<and> loading (rendered a) = loading (fst (world a)) \<longrightarrow>
         Button_click (loading (rendered a)) f a = a)"
    for a :: "'z app" and f
    by (auto simp add: gated_def status_def Button_click_def split: option.splits)
  from this [of "AITone_after es"] this [of "Chatbot_after ds"]
    gated_after(1) [of es] gated_after(2) [of ds]
  show ?thesis by simp
qed

theorem C5_one_generation_in_flight_witness:
  "AITone_timely [ClickGenerate, Render, ClickGenerate] AITone_app \<and>
   Chatbot_timely [ClickGenerate, Render, ClickGenerate] Chatbot_app \<and>
   generating (AITone_after [ClickGenerate, Render, ClickGenerate]) \<noteq> [] \<and>
   generating (Chatbot_after [ClickGenerate, Render, ClickGenerate]) \<noteq> [] \<and>
   status (fst (world (AITone_after [ClickGenerate, Render, ClickGenerate]))) = Generating \<and>
   status (fst (world (Chatbot_after [ClickGenerate, Render, ClickGenerate]))) = Generating \<and>
   length (generating (AITone_after [ClickGenerate, Render, ClickGenerate])) = 1 \<and>
   length (generating (Chatbot_after [ClickGenerate, Render, ClickGenerate])) = 1"
  using C5_one_generation_in_flight_amended [where es = "[ClickGenerate, Render, ClickGenerate]"
      and ds = "[ClickGenerate, Render, ClickGenerate]"]
  by (simp add: AITone_after_def Chatbot_after_def AITone_app_def Chatbot_app_def
      AITone_init_def Chatbot_init_def Button_click_def start_generate_def case_prod_beta
      AITone_begin_from_def Chatbot_begin_from_def seg status_def)

text \<open>
  C5 as stated fails: two clicks on Generate with no render between them both meet the
  button of the first render, which is not disabled, and \<^verbatim>\<open>onGenerate\<close> has no test of
  its own, so two generations are in flight, in either page.
\<close>

theorem C5_click_before_render_counterexample:
  "length (generating (AITone_after [ClickGenerate, ClickGenerate])) = 2 \<and>
   length (generating (Chatbot_after [ClickGenerate, ClickGenerate])) = 2 \<and>
   requests (snd (world (AITone_after [ClickGenerate, ClickGenerate])))
     = [notation_request AITone_init, notation_request AITone_init]"
  by (simp add: AITone_after_def Chatbot_after_def AITone_app_def Chatbot_app_def
      Button_click_def start_generate_def case_prod_beta AITone_begin_from_def
      Chatbot_begin_from_def seg AITone_init_def Chatbot_init_def browser_init_def)

text \<open>
  C6, as amended. For every fast generation whose notation call fails (AITone in fast
  mode, and Chatbot), the notation request is the only request issued, so the render call
  is never issued, and no object URL is created, revoked or published. The session is
  \<^const>\<open>Failed\<close> with the \<^verbatim>\<open>message\<close> of what was thrown when that is an \<^verbatim>\<open>Error\<close>, also
  when the message is empty, in which case the page shows no message; and with
  \<^verbatim>\<open>Generation failed\<close> when what was thrown is not an \<^verbatim>\<open>Error\<close>, whatever it carries.
\<close>

theorem C6_notation_call_fails_amended:
  "(mode s = Fast \<longrightarrow>
      (case AITone_onGenerate (Inl e) wavReply (s, w) of
         (s', w') \<Rightarrow>
           requests w' = requests w @ [notation_request s] \<and>
           error s' = Some (case e of ErrorObj m \<Rightarrow> m | NonError \<Rightarrow> ''Generation failed'') \<and>
           status s' = Failed (case e of ErrorObj m \<Rightarrow> m | NonError \<Rightarrow> ''Generation failed'') \<and>
           shownError s' =
             (case e of ErrorObj m \<Rightarrow> if m = [] then None else Some m
              | NonError \<Rightarrow> Some ''Generation failed'') \<and>
           audioUrl s' = audioUrl s \<and> objectURLs w' = objectURLs w \<and>
           urlLog w' = urlLog w \<and> nextUrl w' = nextUrl w)) \<and>
   (case Chatbot_onGenerate (Inl e) wavReply (c, w) of
      (c', w') \<Rightarrow>
        requests w' = requests w @ [hf_request c] \<and>
        error c' = Some (case e of ErrorObj m \<Rightarrow> m | NonError \<Rightarrow> ''Generation failed'') \<and>
        status c' = Failed (case e of ErrorObj m \<Rightarrow> m | NonError \<Rightarrow> ''Generation failed'') \<and>
        shownError c' =
          (case e of ErrorObj m \<Rightarrow> if m = [] then None else Some m
           | NonError \<Rightarrow> Some ''Generation failed'') \<and>
        audioUrl c' = audioUrl c \<and> objectURLs w' = objectURLs w \<and>
        urlLog w' = urlLog w \<and> nextUrl w' = nextUrl w)"
  by (cases e)
    (simp_all add: notation_fails_aitone notation_fails_chatbot status_def errorMessage_def
      shownError_def truthy_def)

theorem C6_notation_call_fails_witness:
  "mode AITone_init = Fast \<and>
   error (fst (AITone_onGenerate (Inl (ErrorObj ''Failed to fetch'')) (Inr (Blob []))
                 (AITone_init, browser_init))) = Some ''Failed to fetch'' \<and>
   requests (snd (AITone_onGenerate (Inl (ErrorObj ''Failed to fetch'')) (Inr (Blob []))
                    (AITone_init, browser_init))) = [notation_request AITone_init] \<and>
   error (fst (Chatbot_onGenerate (Inl NonError) (Inr (Blob []))
                 (Chatbot_init, browser_init))) = Some ''Generation failed''"
  using C6_notation_call_fails_amended [where s = AITone_init
      and e = "ErrorObj ''Failed to fetch''" and wavReply = "Inr (Blob [])"
      and w = browser_init and c = Chatbot_init]
    C6_notation_call_fails_amended [where s = AITone_init and e = NonError
      and wavReply = "Inr (Blob [])" and w = browser_init and c = Chatbot_init]
  by (simp add: AITone_init_def browser_init_def case_prod_beta)

text \<open>
  C6 as stated fails: when the notation call throws an \<^verbatim>\<open>Error\<close> whose message is
  empty, an error that carries no description, the published \<^verbatim>\<open>error\<close> is that empty
  message and not the fallback string, and the page shows no message.
\<close>

theorem C6_empty_message_counterexample:
  "error (fst (AITone_onGenerate (Inl (ErrorObj [])) (Inr (Blob []))
                 (AITone_init, browser_init))) = Some [] \<and>
   error (fst (AITone_onGenerate (Inl (ErrorObj [])) (Inr (Blob []))
                 (AITone_init, browser_init))) \<noteq> Some ''Generation failed'' \<and>
   shownError (fst (AITone_onGenerate (Inl (ErrorObj [])) (Inr (Blob []))
                      (AITone_init, browser_init))) = None \<and>
   error (fst (Chatbot_onGenerate (Inl (ErrorObj [])) (Inr (Blob []))
                 (Chatbot_init, browser_init))) = Some []"
  by (simp add: AITone_onGenerate_def runFast_def Chatbot_onGenerate_def seg AITone_init_def
      errorMessage_def shownError_def truthy_def)

text \<open>
  C7. An export made while no notation is present (\<^verbatim>\<open>abc\<close> is null or empty, the test
  \<^verbatim>\<open>!abc\<close> of \<^verbatim>\<open>onDownload\<close>) returns at once: state and browser are what they were, so
  no request is issued and nothing is offered for download.
\<close>

theorem C7_export_without_notation:
  "(\<not> truthy (abc s) \<longrightarrow>
      AITone_onDownload k reply (s, w) = (None, s, w) \<and>
      requests (snd (snd (AITone_onDownload k reply (s, w)))) = requests w \<and>
      downloads (snd (snd (AITone_onDownload k reply (s, w)))) = downloads w) \<and>
   (\<not> truthy (abc c) \<longrightarrow>
      Chatbot_onDownload k reply (c, w) = (None, c, w) \<and>
      requests (snd (snd (Chatbot_onDownload k reply (c, w)))) = requests w \<and>
      downloads (snd (snd (Chatbot_onDownload k reply (c, w)))) = downloads w)"
  by (simp add: AITone_onDownload_def Chatbot_onDownload_def truthy_def split: option.splits)

theorem C7_export_without_notation_witness:
  "\<not> truthy (abc AITone_init) \<and> \<not> truthy (abc (Chatbot_init\<lparr>abc := Some []\<rparr>)) \<and>
   AITone_onDownload Midi (Inr (Blob [77])) (AITone_init, browser_init)
     = (None, AITone_init, browser_init) \<and>
   Chatbot_onDownload Wav (Inr (Blob [82])) (Chatbot_init\<lparr>abc := Some []\<rparr>, browser_init)
     = (None, Chatbot_init\<lparr>abc := Some []\<rparr>, browser_init)"
  using C7_export_without_notation [where s = AITone_init and k = Midi
      and reply = "Inr (Blob [77])" and w = browser_init and c = "Chatbot_init\<lparr>abc := Some []\<rparr>"]
    C7_export_without_notation [where s = AITone_init and k = Wav
      and reply = "Inr (Blob [82])" and w = browser_init and c = "Chatbot_init\<lparr>abc := Some []\<rparr>"]
  by (simp add: AITone_init_def Chatbot_init_def truthy_def)

text \<open>
  C8. An export made while a notation \<open>t\<close> is present, whose call succeeds, issues one
  \<^verbatim>\<open>postBlob\<close> to the endpoint of its kind with the current notation, offers the bytes
  returned under a fixed name (\<^verbatim>\<open>ai-tone.wav\<close>, \<^verbatim>\<open>ai-tone.mid\<close> in AITone,
  \<^verbatim>\<open>fusion.wav\<close>, \<^verbatim>\<open>fusion.mid\<close> in Chatbot), and leaves the component state (notation,
  \<^verbatim>\<open>audioUrl\<close>, status) and the live object URLs as they were. The browser is taken to
  hand out unused URLs (\<^const>\<open>fresh\<close>), as it does throughout every session.
\<close>

theorem C8_export_with_notation:
  "(abc s = Some t \<and> t \<noteq> [] \<and> fresh w \<longrightarrow>
      (case AITone_onDownload k (Inr b) (s, w) of
         (ex, s', w') \<Rightarrow>
           ex = None \<and>
           requests w' = requests w @
             [PostBlob (if k = Wav then ''/api/abc/audio/wav'' else ''/api/abc/audio/midi'')
                [(''abc'', JStr t)]] \<and>
           downloads w' = downloads w @
             [(if k = Wav then ''ai-tone.wav'' else ''ai-tone.mid'', Some b)] \<and>
           s' = s \<and> status s' = status s \<and> objectURLs w' = objectURLs w)) \<and>
   (abc c = Some t \<and> t \<noteq> [] \<and> fresh w \<longrightarrow>
      (case Chatbot_onDownload k (Inr b) (c, w) of
         (ex, c', w') \<Rightarrow>
           ex = None \<and>
           requests w' = requests w @
             [PostBlob (if k = Wav then ''/api/abc/audio/wav'' else ''/api/abc/audio/midi'')
                [(''abc'', JStr t)]] \<and>
           downloads w' = downloads w @
             [(if k = Wav then ''fusion.wav'' else ''fusion.mid'', Some b)] \<and>
           c' = c \<and> status c' = status c \<and> objectURLs w' = objectURLs w))"
  by (cases k)
    (simp_all add: AITone_onDownload_def Chatbot_onDownload_def send_pair downloadBlob_eq
      export_request_def kind_path_def fresh_def filter_fresh)

theorem C8_export_with_notation_witness:
  "abc (AITone_init\<lparr>abc := Some ''X:1''\<rparr>) = Some ''X:1'' \<and> ''X:1'' \<noteq> [] \<and> fresh browser_init \<and>
   abc (Chatbot_init\<lparr>abc := Some ''X:1''\<rparr>) = Some ''X:1'' \<and>
   downloads (snd (snd (AITone_onDownload Midi (Inr (Blob [77, 84]))
                     (AITone_init\<lparr>abc := Some ''X:1''\<rparr>, browser_init))))
     = [(''ai-tone.mid'', Some (Blob [77, 84]))] \<and>
   downloads (snd (snd (Chatbot_onDownload Wav (Inr (Blob [77, 84]))
                     (Chatbot_init\<lparr>abc := Some ''X:1''\<rparr>, browser_init))))
     = [(''fusion.wav'', Some (Blob [77, 84]))]"
  using C8_export_with_notation [where s = "AITone_init\<lparr>abc := Some ''X:1''\<rparr>"
      and t = "''X:1''" and k = Midi and b = "Blob [77, 84]" and w = browser_init
      and c = "Chatbot_init\<lparr>abc := Some ''X:1''\<rparr>"]
    C8_export_with_notation [where s = "AITone_init\<lparr>abc := Some ''X:1''\<rparr>"
      and t = "''X:1''" and k = Wav and b = "Blob [77, 84]" and w = browser_init
      and c = "Chatbot_init\<lparr>abc := Some ''X:1''\<rparr>"]
  by (simp add: AITone_init_def Chatbot_init_def browser_init_def fresh_def case_prod_beta)

text \<open>
  C9, as amended. When \<^verbatim>\<open>onGenerate\<close> reaches its first \<^verbatim>\<open>await\<close>, the session is
  \<^const>\<open>Generating\<close>, the error message is cleared, and the published \<^verbatim>\<open>audioUrl\<close>
  and the live object URLs are what they were. The published notation is what it was in
  fast mode and in Chatbot; in direct mode it is cleared at that point.
\<close>

theorem C9_entering_generating_amended:
  "(case AITone_begin (s, w) of
      ((s', w'), p) \<Rightarrow>
        error s' = None \<and> status s' = Generating \<and>
        audioUrl s' = audioUrl s \<and> objectURLs w' = objectURLs w \<and> urlLog w' = urlLog w \<and>
        abc s' = (if mode s = Fast then abc s else None)) \<and>
   (case Chatbot_begin (c, w) of
      ((c', w'), p) \<Rightarrow>
        error c' = None \<and> status c' = Generating \<and>
        audioUrl c' = audioUrl c \<and> objectURLs w' = objectURLs w \<and> urlLog w' = urlLog w \<and>
        abc c' = abc c)"
  by (simp add: AITone_begin_def Chatbot_begin_def seg status_def)

theorem C9_entering_generating_witness:
  "error (fst (fst (AITone_begin
      (AITone_init\<lparr>error := Some ''Failed to fetch'', abc := Some ''X:1''\<rparr>, browser_init)))) = None \<and>
   abc (fst (fst (AITone_begin
      (AITone_init\<lparr>error := Some ''Failed to fetch'', abc := Some ''X:1''\<rparr>, browser_init))))
     = Some ''X:1'' \<and>
   abc (fst (fst (Chatbot_begin (Chatbot_init\<lparr>abc := Some ''X:1''\<rparr>, browser_init))))
     = Some ''X:1''"
  using C9_entering_generating_amended
    [where s = "AITone_init\<lparr>error := Some ''Failed to fetch'', abc := Some ''X:1''\<rparr>"
      and w = browser_init and c = "Chatbot_init\<lparr>abc := Some ''X:1''\<rparr>"]
  by (simp add: AITone_init_def Chatbot_init_def case_prod_beta)

text \<open>
  C9 as stated fails: after a fast generation has published the notation \<^verbatim>\<open>X:1\<close> and
  the mode has been set to direct, the notation is already absent when the next
  generation has made the session \<^const>\<open>Generating\<close>.
\<close>

theorem C9_direct_clears_notation_counterexample:
  "abc (fst (AITone_run [Generate (Inr ''X:1'') (Inr (Blob [82, 73, 70, 70])),
                         Change (SetMode Direct)])) = Some ''X:1'' \<and>
   status (fst (AITone_run [Generate (Inr ''X:1'') (Inr (Blob [82, 73, 70, 70])),
                            Change (SetMode Direct)])) = Ready \<and>
   abc (fst (fst (AITone_begin
          (AITone_run [Generate (Inr ''X:1'') (Inr (Blob [82, 73, 70, 70])),
                       Change (SetMode Direct)])))) = None \<and>
   status (fst (fst (AITone_begin
          (AITone_run [Generate (Inr ''X:1'') (Inr (Blob [82, 73, 70, 70])),
                       Change (SetMode Direct)])))) = Generating"
  by (simp add: AITone_run_def AITone_onGenerate_def runFast_def AITone_begin_def seg
      AITone_init_def browser_init_def status_def)

text \<open>
  C10. An export whose call is rejected is not caught: \<^verbatim>\<open>onDownload\<close> ends with the
  thrown value as the rejection of its own promise, the component state (error message,
  status, notation, \<^verbatim>\<open>audioUrl\<close>) is what it was, and the browser differs only by the
  request issued: nothing is offered for download and no object URL is touched.
\<close>

theorem C10_export_call_fails:
  "(abc s = Some t \<and> t \<noteq> [] \<longrightarrow>
      (case AITone_onDownload k (Inl e) (s, w) of
         (ex, s', w') \<Rightarrow>
           ex = Some e \<and> s' = s \<and> error s' = error s \<and> status s' = status s \<and>
           w' = w\<lparr>requests := requests w @ [export_request k t]\<rparr> \<and>
           downloads w' = downloads w \<and> objectURLs w' = objectURLs w \<and> urlLog w' = urlLog w)) \<and>
   (abc c = Some t \<and> t \<noteq> [] \<longrightarrow>
      (case Chatbot_onDownload k (Inl e) (c, w) of
         (ex, c', w') \<Rightarrow>
           ex = Some e \<and> c' = c \<and> error c' = error c \<and> status c' = status c \<and>
           w' = w\<lparr>requests := requests w @ [export_request k t]\<rparr> \<and>
           downloads w' = downloads w \<and> objectURLs w' = objectURLs w \<and> urlLog w' = urlLog w))"
  by (simp add: AITone_onDownload_def Chatbot_onDownload_def send_pair)

theorem C10_export_call_fails_witness:
  "abc (AITone_init\<lparr>abc := Some ''X:1''\<rparr>) = Some ''X:1'' \<and> ''X:1'' \<noteq> [] \<and>
   abc (Chatbot_init\<lparr>abc := Some ''X:1''\<rparr>) = Some ''X:1'' \<and>
   fst (AITone_onDownload Wav (Inl (ErrorObj ''Failed to fetch''))
          (AITone_init\<lparr>abc := Some ''X:1''\<rparr>, browser_init)) = Some (ErrorObj ''Failed to fetch'') \<and>
   error (fst (snd (AITone_onDownload Wav (Inl (ErrorObj ''Failed to fetch''))
                      (AITone_init\<lparr>abc := Some ''X:1''\<rparr>, browser_init)))) = None \<and>
   downloads (snd (snd (Chatbot_onDownload Midi (Inl NonError)
                          (Chatbot_init\<lparr>abc := Some ''X:1''\<rparr>, browser_init)))) = []"
  using C10_export_call_fails [where s = "AITone_init\<lparr>abc := Some ''X:1''\<rparr>"
      and t = "''X:1''" and k = Wav and e = "ErrorObj ''Failed to fetch''" and w = browser_init
      and c = "Chatbot_init\<lparr>abc := Some ''X:1''\<rparr>"]
    C10_export_call_fails [where s = "AITone_init\<lparr>abc := Some ''X:1''\<rparr>"
      and t = "''X:1''" and k = Midi and e = NonError and w = browser_init
      and c = "Chatbot_init\<lparr>abc := Some ''X:1''\<rparr>"]
  by (simp add: AITone_init_def Chatbot_init_def browser_init_def case_prod_beta)

end
